theory Spec2Isabelle
  imports Complex_Main
begin

section \<open>The bar chart visual: a shallow embedding of barChart.ts\<close>

text \<open>
  The visual is one TypeScript module. Its pure part is \<open>visualTransform\<close> with the colour
  helpers (\<open>shadeColor\<close>, \<open>getColumnColorByIndex\<close>, \<open>getColumnStrokeColor\<close>,
  \<open>getColumnStrokeWidth\<close>, \<open>getAxisTextFillColor\<close>); its stateful part is the class
  \<open>BarChart\<close>, of which the gradient loop of \<open>update\<close>, its styling of the bars with
  the resting opacity and \<open>syncSelectionState\<close> are embedded here, with the part of the
  drawing surface they touch as explicit state.

  Conventions of the embedding.
  \<^item> A JavaScript \<open>number\<close> is a \<open>real\<close>; \<open>NaN\<close>, where the code can produce it, is
    \<open>None\<close> of an option. The only arithmetic of the module is on the integers 0..255
    of a colour channel, where doubles and reals agree (see \<open>parseIntOfNumber\<close>).
  \<^item> A string is a \<open>string\<close>; \<open>null\<close> and \<open>undefined\<close> of a string-typed or
    object-typed place are \<open>None\<close>.
  \<^item> A \<open>TypeError\<close> thrown by reading a property of \<open>undefined\<close> is the value
    \<open>Inl TypeError\<close>.
  \<^item> Field names are the source's. Where two interfaces share a field name the field is
    written with its record (\<open>DataViewValueColumn.values\<close>).
\<close>

subsection \<open>JavaScript built-ins used by the module\<close>

type_synonym number = real

datatype error = TypeError

text \<open>\<open>s.substring(a, b)\<close> for \<open>a \<le> b\<close> and \<open>s.substr(a)\<close>: both clamp to the length.\<close>

definition substring :: "string \<Rightarrow> nat \<Rightarrow> nat \<Rightarrow> string" where
  "substring s a b = take (b - a) (drop a s)"

definition substr :: "string \<Rightarrow> nat \<Rightarrow> string" where
  "substr s a = drop a s"

text \<open>
  \<open>parseInt(string, radix)\<close> for a radix in 2..36, after the language standard: leading
  white space is skipped, a sign is read, for radix 16 a prefix \<open>0x\<close> or \<open>0X\<close> is
  dropped, and the longest prefix of digits of the radix is the number; with no digit the
  result is \<open>NaN\<close>. A \<open>char\<close> is a code unit below 256, so the white space is the
  tab, the line feed, the vertical tab, the form feed, the carriage return, the space and
  the no-break space.
\<close>

definition isWhiteSpace :: "char \<Rightarrow> bool" where
  "isWhiteSpace c = (c \<in> set [CHR 0x09, CHR 0x0A, CHR 0x0B, CHR 0x0C, CHR 0x0D, CHR 0x20, CHR 0xA0])"

definition digitValue :: "char \<Rightarrow> nat option" where
  "digitValue c =
     (let n = (of_char c :: nat) in
      if 48 \<le> n \<and> n \<le> 57 then Some (n - 48)
      else if 97 \<le> n \<and> n \<le> 122 then Some (n - 87)
      else if 65 \<le> n \<and> n \<le> 90 then Some (n - 55)
      else None)"

definition isRadixDigit :: "nat \<Rightarrow> char \<Rightarrow> bool" where
  "isRadixDigit radix c = (case digitValue c of None \<Rightarrow> False | Some d \<Rightarrow> d < radix)"

definition digitOf :: "char \<Rightarrow> nat" where
  "digitOf c = (case digitValue c of None \<Rightarrow> 0 | Some d \<Rightarrow> d)"

definition parseInt :: "string \<Rightarrow> nat \<Rightarrow> int option" where
  "parseInt string radix =
     (let S = dropWhile isWhiteSpace string;
          sign = (if take 1 S = ''-'' then - 1 else 1);
          S = (if take 1 S = ''+'' \<or> take 1 S = ''-'' then drop 1 S else S);
          S = (if radix = 16 \<and> (take 2 S = ''0x'' \<or> take 2 S = ''0X'') then drop 2 S else S);
          Z = takeWhile (isRadixDigit radix) S
      in if radix < 2 \<or> 36 < radix \<or> Z = [] then None
         else Some (sign * int (foldl (\<lambda>acc c. acc * radix + digitOf c) 0 Z)))"

text \<open>
  \<open>parseInt(`${x}`)\<close> for a number \<open>x\<close>: the number is printed in decimal and read back
  up to the decimal point, which cuts it toward zero; \<open>NaN\<close> prints as \<open>NaN\<close> and reads
  back as \<open>NaN\<close>. (A number is printed with an exponent from \<open>10^21\<close> on and below
  \<open>10^-6\<close>; the quotients \<open>R * (100 + percent) / 100\<close> of a channel are hundredths and
  far below \<open>10^21\<close>, and their distance to the next integer is at least a hundredth, so
  the double and the real have the same integer part.)
\<close>

definition trunc :: "number \<Rightarrow> int" where
  "trunc v = (if v < 0 then \<lceil>v\<rceil> else \<lfloor>v\<rfloor>)"

definition parseIntOfNumber :: "number option \<Rightarrow> int option" where
  "parseIntOfNumber x = (case x of None \<Rightarrow> None | Some v \<Rightarrow> Some (trunc v))"

text \<open>\<open>n.toString(16)\<close> for an integer \<open>n\<close>: lower-case digits, no leading zero, a minus sign.\<close>

definition hexChar :: "nat \<Rightarrow> char" where
  "hexChar d = ''0123456789abcdef'' ! (d mod 16)"

fun hexDigits :: "nat \<Rightarrow> string" where
  "hexDigits n = (if n < 16 then [hexChar n] else hexDigits (n div 16) @ [hexChar (n mod 16)])"

declare hexDigits.simps [simp del]

definition toString16 :: "int \<Rightarrow> string" where
  "toString16 n = (if n < 0 then ''-'' @ hexDigits (nat (- n)) else hexDigits (nat n))"

subsection \<open>shadeColor\<close>

text \<open>
  The three channels are read from the characters 1..2, 3..4 and 5..6 of the colour, scaled
  by \<open>(100 + percent) / 100\<close>, cut to an integer, capped at 255 (a \<open>NaN\<close> fails the test
  \<open>R < 255\<close> and becomes 255) and printed as two hexadecimal digits.
\<close>

definition scaleChannel :: "int option \<Rightarrow> int \<Rightarrow> int option" where
  "scaleChannel R percent =
     parseIntOfNumber (case R of None \<Rightarrow> None
        | Some r \<Rightarrow> Some (of_int r * (100 + of_int percent) / 100))"

definition capChannel :: "int option \<Rightarrow> int" where
  "capChannel R = (case R of None \<Rightarrow> 255 | Some r \<Rightarrow> if r < 255 then r else 255)"

definition padHex :: "int \<Rightarrow> string" where
  "padHex R = (if length (toString16 R) = 1 then ''0'' @ toString16 R else toString16 R)"

definition shadeColor :: "string \<Rightarrow> int \<Rightarrow> string" where
  "shadeColor color percent =
     (let R = parseInt (substring color 1 3) 16;
          G = parseInt (substring color 3 5) 16;
          B = parseInt (substring color 5 7) 16;
          R = scaleChannel R percent;
          G = scaleChannel G percent;
          B = scaleChannel B percent;
          R = capChannel R;
          G = capChannel G;
          B = capChannel B;
          RR = padHex R;
          GG = padHex G;
          BB = padHex B
      in ''#'' @ RR @ GG @ BB)"

subsection \<open>The host's data view\<close>

text \<open>
  The host's types are declared outside the module; only the members the module reads are
  kept. A member the module tests for being falsy before it reads through it is optional
  here, whatever the host's declaration says. \<open>PrimitiveValue\<close> is
  \<open>string | number | boolean | Date\<close>, and a column may hold \<open>null\<close>; a \<open>Date\<close> is held by
  its time value. How a number or a date prints is the language's business and a parameter
  of the model (\<open>ToStringOps\<close>).
\<close>

datatype PrimitiveValue = PString string | PNumber number | PBoolean bool | PDate number | PNull

record ToStringOps =
  numberToString :: "number \<Rightarrow> string"
  dateToString :: "number \<Rightarrow> string"

text \<open>The template literal \<open>`${v}`\<close>; \<open>None\<close> is \<open>undefined\<close>.\<close>

fun templateString :: "ToStringOps \<Rightarrow> PrimitiveValue option \<Rightarrow> string" where
  "templateString js None = ''undefined''"
| "templateString js (Some PNull) = ''null''"
| "templateString js (Some (PString s)) = s"
| "templateString js (Some (PBoolean b)) = (if b then ''true'' else ''false'')"
| "templateString js (Some (PNumber n)) = numberToString js n"
| "templateString js (Some (PDate d)) = dateToString js d"

text \<open>An array read \<open>xs[i]\<close>: \<open>undefined\<close> beyond the length.\<close>

definition elemAt :: "'a list \<Rightarrow> nat \<Rightarrow> 'a option" where
  "elemAt xs i = (if i < length xs then Some (xs ! i) else None)"

text \<open>
  The persisted objects: a bag keyed by object name, then by property name. The module
  reads three objects; \<open>Fill\<close> is \<open>{ solid: { color } }\<close>. An object name and a property
  name are the selectors of these records.
\<close>

record Fill =
  solidColor :: string

record EnableAxisObject =
  "show" :: "bool option"
  fill :: "Fill option"

record GeneralViewObject =
  opacity :: "number option"
  showHelpLink :: "bool option"

record ColorSelectorObject =
  fill :: "Fill option"
  endFill :: "Fill option"

record DataViewObjects =
  enableAxis :: "EnableAxisObject option"
  generalView :: "GeneralViewObject option"
  colorSelector :: "ColorSelectorObject option"

record DataViewMetadataColumn =
  displayName :: string

record DataViewCategoryColumn =
  source :: "DataViewMetadataColumn option"
  "values" :: "PrimitiveValue list"
  objects :: "DataViewObjects option list option"

record DataViewValueColumn =
  "values" :: "PrimitiveValue list"
  maxLocal :: "PrimitiveValue option"

record DataViewCategorical =
  categories :: "DataViewCategoryColumn list option"
  "values" :: "DataViewValueColumn list option"

record DataViewMetadata =
  objects :: "DataViewObjects option"

record DataView =
  metadata :: DataViewMetadata
  categorical :: "DataViewCategorical option"

record VisualUpdateOptions =
  dataViews :: "DataView list option"

text \<open>
  The palette and the host. \<open>foreground\<close> and \<open>background\<close> are the \<open>value\<close> of the theme's
  colours, \<open>getColor\<close> the \<open>value\<close> of the colour the palette gives a key, and
  \<open>createSelectionId category i\<close> is
  \<open>createSelectionIdBuilder().withCategory(category, i).createSelectionId()\<close>.
\<close>

record ISandboxExtendedColorPalette =
  isHighContrast :: bool
  foreground :: string
  background :: string
  getColor :: "string \<Rightarrow> string"

record 'sid IVisualHost =
  colorPalette :: ISandboxExtendedColorPalette
  createSelectionId :: "DataViewCategoryColumn \<Rightarrow> nat \<Rightarrow> 'sid"

text \<open>
  Modelled from the spec: \<open>getValue\<close> and \<open>getCategoricalObjectValue\<close>, which the module
  calls and another file of the repository defines. The spec has settings "resolved per
  update from persisted object properties overlaid on defaults" and per-category
  overrides that "take precedence over computed colors when present": the persisted
  value where the object and the property are there, the default otherwise.
\<close>

definition getValue ::
  "DataViewObjects option \<Rightarrow> (DataViewObjects \<Rightarrow> 'o option) \<Rightarrow> ('o \<Rightarrow> 'a option) \<Rightarrow> 'a \<Rightarrow> 'a" where
  "getValue objs objectName propertyName defaultValue =
     (case objs of None \<Rightarrow> defaultValue
      | Some os \<Rightarrow>
          (case objectName os of None \<Rightarrow> defaultValue
           | Some ob \<Rightarrow>
               (case propertyName ob of None \<Rightarrow> defaultValue | Some property \<Rightarrow> property)))"

definition getCategoricalObjectValue ::
  "DataViewCategoryColumn \<Rightarrow> nat \<Rightarrow> (DataViewObjects \<Rightarrow> 'o option) \<Rightarrow> ('o \<Rightarrow> 'a option) \<Rightarrow> 'a \<Rightarrow> 'a" where
  "getCategoricalObjectValue category' index objectName propertyName defaultValue =
     (case DataViewCategoryColumn.objects category' of None \<Rightarrow> defaultValue
      | Some categoryObjects \<Rightarrow>
          (case elemAt categoryObjects index of None \<Rightarrow> defaultValue
           | Some categoryObject \<Rightarrow> getValue categoryObject objectName propertyName defaultValue))"

subsection \<open>The view model\<close>

record 'sid BarChartDataPoint =
  "value" :: "PrimitiveValue option"
  category :: string
  color :: string
  endColor :: string
  strokeColor :: "string option"
  strokeWidth :: number
  selectionId :: 'sid

record EnableAxisSettings =
  "show" :: bool
  fill :: string

record GeneralViewSettings =
  opacity :: number
  showHelpLink :: bool
  helpLinkColor :: "string option"

text \<open>
  The members of \<open>BarChartSettings\<close> are optional in the model because the module builds
  the object \<open>{}\<close> under that type.
\<close>

record BarChartSettings =
  enableAxis :: "EnableAxisSettings option"
  generalView :: "GeneralViewSettings option"

record 'sid BarChartViewModel =
  dataPoints :: "'sid BarChartDataPoint list"
  dataMax :: "PrimitiveValue option"
  settings :: BarChartSettings

subsection \<open>The colour helpers\<close>

text \<open>\<open>getColumnColorByIndex\<close> also writes the two colours to the console, which no one reads.\<close>

definition getColumnColorByIndex ::
  "ToStringOps \<Rightarrow> DataViewCategoryColumn \<Rightarrow> nat \<Rightarrow> ISandboxExtendedColorPalette \<Rightarrow> bool \<Rightarrow> string" where
  "getColumnColorByIndex js category' index colorPalette' isEndColor =
     (if isHighContrast colorPalette' then background colorPalette'
      else
        let categoryColor =
              getColor colorPalette'
                (templateString js (elemAt (DataViewCategoryColumn.values category') index));
            categoryEndColor = shadeColor categoryColor (- 40);
            defaultColor = \<lparr>solidColor = (if isEndColor then categoryEndColor else categoryColor)\<rparr>
        in solidColor
             (getCategoricalObjectValue category' index DataViewObjects.colorSelector
                (if isEndColor then ColorSelectorObject.endFill else ColorSelectorObject.fill)
                defaultColor))"

definition getColumnStrokeColor :: "ISandboxExtendedColorPalette \<Rightarrow> string option" where
  "getColumnStrokeColor colorPalette' =
     (if isHighContrast colorPalette' then Some (foreground colorPalette') else None)"

definition getColumnStrokeWidth :: "bool \<Rightarrow> number" where
  "getColumnStrokeWidth isHighContrast' = (if isHighContrast' then 2 else 0)"

definition getAxisTextFillColor ::
  "DataViewObjects option \<Rightarrow> ISandboxExtendedColorPalette \<Rightarrow> string \<Rightarrow> string" where
  "getAxisTextFillColor objs colorPalette' defaultColor =
     (if isHighContrast colorPalette' then foreground colorPalette'
      else solidColor
             (getValue objs DataViewObjects.enableAxis EnableAxisObject.fill
                \<lparr>solidColor = defaultColor\<rparr>))"

subsection \<open>visualTransform\<close>

definition defaultEnableAxis :: EnableAxisSettings where
  "defaultEnableAxis = \<lparr>show = False, fill = ''#000000''\<rparr>"

definition defaultGeneralView :: GeneralViewSettings where
  "defaultGeneralView = \<lparr>opacity = 100, showHelpLink = False, helpLinkColor = Some ''#80B0E0''\<rparr>"

definition defaultSettings :: BarChartSettings where
  "defaultSettings = \<lparr>enableAxis = Some defaultEnableAxis, generalView = Some defaultGeneralView\<rparr>"

text \<open>The view model the function starts from; its settings are the object \<open>{}\<close>.\<close>

definition viewModel :: "'sid BarChartViewModel" where
  "viewModel =
     \<lparr>dataPoints = [], dataMax = Some (PNumber 0),
      settings = \<lparr>enableAxis = None, generalView = None\<rparr>\<rparr>"

text \<open>The data point pushed at index \<open>i\<close>, and the \<open>for\<close> loop that pushes them.\<close>

definition dataPoint ::
  "ToStringOps \<Rightarrow> 'sid IVisualHost \<Rightarrow> DataViewCategoryColumn \<Rightarrow> DataViewValueColumn \<Rightarrow>
   string option \<Rightarrow> number \<Rightarrow> nat \<Rightarrow> 'sid BarChartDataPoint" where
  "dataPoint js host category' dataValue strokeColor' strokeWidth' i =
     \<lparr>value = elemAt (DataViewValueColumn.values dataValue) i,
      category = templateString js (elemAt (DataViewCategoryColumn.values category') i),
      color = getColumnColorByIndex js category' i (colorPalette host) False,
      endColor = getColumnColorByIndex js category' i (colorPalette host) True,
      strokeColor = strokeColor',
      strokeWidth = strokeWidth',
      selectionId = createSelectionId host category' i\<rparr>"

function pushDataPoints ::
  "(nat \<Rightarrow> 'p) \<Rightarrow> nat \<Rightarrow> nat \<Rightarrow> 'p list \<Rightarrow> 'p list" where
  "pushDataPoints point i len barChartDataPoints =
     (if i < len then pushDataPoints point (Suc i) len (barChartDataPoints @ [point i])
      else barChartDataPoints)"
  by pat_completeness auto
termination
  by (relation "measure (\<lambda>(point, i, len, barChartDataPoints). len - i)") auto

declare pushDataPoints.simps [simp del]

definition visualTransform ::
  "ToStringOps \<Rightarrow> VisualUpdateOptions \<Rightarrow> 'sid IVisualHost \<Rightarrow> error + 'sid BarChartViewModel" where
  "visualTransform js options host =
     (case dataViews options of None \<Rightarrow> Inr viewModel
      | Some [] \<Rightarrow> Inr viewModel
      | Some (dataView # _) \<Rightarrow>
     (case categorical dataView of None \<Rightarrow> Inr viewModel
      | Some categorical' \<Rightarrow>
     (case categories categorical' of None \<Rightarrow> Inr viewModel
      | Some [] \<Rightarrow> Inl TypeError
      | Some (category' # _) \<Rightarrow>
     (case source category' of None \<Rightarrow> Inr viewModel
      | Some _ \<Rightarrow>
     (case DataViewCategorical.values categorical' of None \<Rightarrow> Inr viewModel
      | Some values' \<Rightarrow>
        let dataValue = elemAt values' 0;
            colorPalette' = colorPalette host;
            objs = DataViewMetadata.objects (metadata dataView);
            strokeColor' = getColumnStrokeColor colorPalette';
            barChartSettings =
              \<lparr>enableAxis = Some
                 \<lparr>show = getValue objs DataViewObjects.enableAxis EnableAxisObject.show
                           (show defaultEnableAxis),
                  fill = getAxisTextFillColor objs colorPalette' (fill defaultEnableAxis)\<rparr>,
               generalView = Some
                 \<lparr>opacity = getValue objs DataViewObjects.generalView GeneralViewObject.opacity
                              (opacity defaultGeneralView),
                  showHelpLink =
                    getValue objs DataViewObjects.generalView GeneralViewObject.showHelpLink
                      (showHelpLink defaultGeneralView),
                  helpLinkColor = strokeColor'\<rparr>\<rparr>;
            strokeWidth' = getColumnStrokeWidth (isHighContrast colorPalette')
        in (case dataValue of None \<Rightarrow> Inl TypeError
            | Some dataValue \<Rightarrow>
                Inr \<lparr>dataPoints =
                       pushDataPoints (dataPoint js host category' dataValue strokeColor' strokeWidth') 0
                         (max (length (DataViewCategoryColumn.values category'))
                              (length (DataViewValueColumn.values dataValue))) [],
                     dataMax = maxLocal dataValue,
                     settings = barChartSettings\<rparr>))))))"

subsection \<open>The gradient loop of update\<close>

text \<open>
  The gradients are the only elements under the \<open>svg\<close> element that carry an id, so the
  state \<open>svg.select("#" + id)\<close> reads and \<open>svg.append("defs")\<close> extends is the list of the
  gradients registered so far, in document order. Ids are compared as strings.
\<close>

record Stop =
  offset :: string
  stopColor :: string
  stopOpacity :: number

record LinearGradient =
  id' :: string
  x1 :: string
  y1 :: string
  x2 :: string
  y2 :: string
  stops :: "Stop list"

definition gradientId :: "string \<Rightarrow> string \<Rightarrow> string" where
  "gradientId color' endColor' = ''gradient_'' @ substr color' 1 @ ''_'' @ substr endColor' 1"

definition selectEmpty :: "LinearGradient list \<Rightarrow> string \<Rightarrow> bool" where
  "selectEmpty svg i = (find (\<lambda>g. id' g = i) svg = None)"

definition createGradient :: "LinearGradient list \<Rightarrow> 'sid BarChartDataPoint \<Rightarrow> LinearGradient list" where
  "createGradient svg dataPoint' =
     (let gradientId' = gradientId (color dataPoint') (endColor dataPoint') in
      if selectEmpty svg gradientId' then
        svg @ [\<lparr>id' = gradientId', x1 = ''0%'', y1 = ''0%'', x2 = ''0%'', y2 = ''100%'',
                stops = [\<lparr>offset = ''0%'', stopColor = color dataPoint', stopOpacity = 1\<rparr>,
                         \<lparr>offset = ''100%'', stopColor = endColor dataPoint', stopOpacity = 1\<rparr>]\<rparr>]
      else svg)"

definition createGradients :: "LinearGradient list \<Rightarrow> 'sid BarChartDataPoint list \<Rightarrow> LinearGradient list" where
  "createGradients svg barDataPoints = foldl createGradient svg barDataPoints"

subsection \<open>syncSelectionState\<close>

text \<open>
  A bar of the selection is its datum and the two style properties the function sets;
  \<open>None\<close> is a property that is not set. \<open>includes a b\<close> is the host's \<open>a.includes(b)\<close> on
  selection ids.
\<close>

record 'sid Bar =
  datum :: "'sid BarChartDataPoint"
  fillOpacity :: "number option"
  strokeOpacity :: "number option"

definition solidOpacity :: number where
  "solidOpacity = 1"

definition transparentOpacity :: number where
  "transparentOpacity = 0.4"

definition isSelectionIdInArray :: "('sid \<Rightarrow> 'sid \<Rightarrow> bool) \<Rightarrow> 'sid list option \<Rightarrow> 'sid option \<Rightarrow> bool" where
  "isSelectionIdInArray includes selectionIds selectionId' =
     (case selectionIds of None \<Rightarrow> False
      | Some ids \<Rightarrow>
          (case selectionId' of None \<Rightarrow> False
           | Some sid \<Rightarrow> list_ex (\<lambda>currentSelectionId. includes currentSelectionId sid) ids))"

definition syncSelectionState ::
  "('sid \<Rightarrow> 'sid \<Rightarrow> bool) \<Rightarrow> 'sid Bar list option \<Rightarrow> 'sid list option \<Rightarrow> 'sid Bar list option" where
  "syncSelectionState includes selection selectionIds =
     (case selection of None \<Rightarrow> None
      | Some bars \<Rightarrow>
          (case selectionIds of None \<Rightarrow> Some bars
           | Some ids \<Rightarrow>
               if length ids = 0 then
                 Some (map (\<lambda>bar. bar\<lparr>fillOpacity := None, strokeOpacity := None\<rparr>) bars)
               else
                 Some (map (\<lambda>bar.
                        let isSelected =
                              isSelectionIdInArray includes selectionIds (Some (selectionId (datum bar)));
                            opacity' = (if isSelected then solidOpacity else transparentOpacity)
                        in bar\<lparr>fillOpacity := Some opacity', strokeOpacity := Some opacity'\<rparr>) bars)))"

text \<open>
  The part of \<open>update\<close> that touches the two opacities: \<open>opacity\<close> is
  \<open>viewModel.settings.generalView.opacity / 100\<close>, the bars are styled with it (the
  resting opacity, written to \<open>fill-opacity\<close> and \<open>stroke-opacity\<close>), and
  \<open>syncSelectionState\<close> is then run on the same bars with the ids the selection manager
  holds.
\<close>

definition styleBars :: "number \<Rightarrow> 'sid Bar list \<Rightarrow> 'sid Bar list" where
  "styleBars opacity' barSelection =
     map (\<lambda>bar. bar\<lparr>fillOpacity := Some opacity', strokeOpacity := Some opacity'\<rparr>) barSelection"

definition updateOpacity ::
  "('sid \<Rightarrow> 'sid \<Rightarrow> bool) \<Rightarrow> GeneralViewSettings \<Rightarrow> 'sid Bar list \<Rightarrow> 'sid list option \<Rightarrow>
   'sid Bar list option" where
  "updateOpacity includes generalView' barSelection selectionIds =
     (let opacity' = opacity generalView' / 100
      in syncSelectionState includes (Some (styleBars opacity' barSelection)) selectionIds)"

subsection \<open>Notions of the specification\<close>

text \<open>
  A valid colour is \<open>#\<close> and six hexadecimal digits; its channel \<open>k\<close> (0 red, 1 green,
  2 blue) is the value of the two digits at \<open>2k + 1\<close> and \<open>2k + 2\<close>; \<open>hex2\<close> writes a
  channel as exactly two lower-case digits.
\<close>

definition isHexDigit :: "char \<Rightarrow> bool" where
  "isHexDigit c = (c \<in> set ''0123456789abcdefABCDEF'')"

definition isHexColor :: "string \<Rightarrow> bool" where
  "isHexColor c = (length c = 7 \<and> take 1 c = ''#'' \<and> list_all isHexDigit (drop 1 c))"

definition channel :: "string \<Rightarrow> nat \<Rightarrow> int" where
  "channel c k = int (16 * digitOf (c ! (2 * k + 1)) + digitOf (c ! (2 * k + 2)))"

definition hex2 :: "int \<Rightarrow> string" where
  "hex2 n = [hexChar (nat n div 16), hexChar (nat n mod 16)]"

definition clamp :: "int \<Rightarrow> int \<Rightarrow> int \<Rightarrow> int" where
  "clamp x lo hi = max lo (min hi x)"

text \<open>
  The shading formula of the specification, with the rounding left open:
  \<open>channel' = clamp(rnd(channel * (100 - 40) / 100), 0, 255)\<close>, each channel written
  as two digits after \<open>#\<close>. The specification's words are \<open>shadeColor_spec\<close>, with
  \<open>round\<close>.
\<close>

definition shadeChannels :: "(number \<Rightarrow> int) \<Rightarrow> string \<Rightarrow> string" where
  "shadeChannels rnd c =
     ''#'' @ hex2 (clamp (rnd (of_int (channel c 0) * (100 - 40) / 100)) 0 255)
          @ hex2 (clamp (rnd (of_int (channel c 1) * (100 - 40) / 100)) 0 255)
          @ hex2 (clamp (rnd (of_int (channel c 2) * (100 - 40) / 100)) 0 255)"

definition shadeColor_spec :: "string \<Rightarrow> string" where
  "shadeColor_spec c = shadeChannels round c"

text \<open>
  No persisted setting: the objects of the metadata are absent, or the two objects the
  settings are read from are absent or hold none of the four properties.
\<close>

definition noPersistedSettings :: "DataViewObjects option \<Rightarrow> bool" where
  "noPersistedSettings objs =
     (case objs of None \<Rightarrow> True
      | Some os \<Rightarrow>
          (case DataViewObjects.enableAxis os of None \<Rightarrow> True
           | Some ea \<Rightarrow> EnableAxisObject.show ea = None \<and> EnableAxisObject.fill ea = None)
        \<and> (case DataViewObjects.generalView os of None \<Rightarrow> True
           | Some gv \<Rightarrow> GeneralViewObject.opacity gv = None \<and> GeneralViewObject.showHelpLink gv = None))"

subsection \<open>Example inputs\<close>

text \<open>
  A palette outside high contrast, a host whose selection id of a row is its index, and a
  query result with one category column and one value column.
\<close>

definition exampleJs :: ToStringOps where
  "exampleJs =
     \<lparr>numberToString = (\<lambda>n. if n = 3 then ''3'' else if n = 7 then ''7'' else ''0''),
      dateToString = (\<lambda>d. ''Thu Jan 01 1970'')\<rparr>"

definition examplePalette :: ISandboxExtendedColorPalette where
  "examplePalette =
     \<lparr>isHighContrast = False, foreground = ''#ffffff'', background = ''#000000'',
      getColor = (\<lambda>key. if key = ''A'' then ''#ff0000'' else if key = ''undefined'' then ''#336699''
                          else ''#00ff00'')\<rparr>"

definition exampleHost :: "nat IVisualHost" where
  "exampleHost = \<lparr>colorPalette = examplePalette, createSelectionId = (\<lambda>category' i. i)\<rparr>"

definition exampleHighContrastHost :: "nat IVisualHost" where
  "exampleHighContrastHost =
     \<lparr>colorPalette = examplePalette\<lparr>isHighContrast := True\<rparr>,
      createSelectionId = (\<lambda>category' i. i)\<rparr>"

definition exampleCategory :: "PrimitiveValue list \<Rightarrow> DataViewCategoryColumn" where
  "exampleCategory categoryValues =
     \<lparr>source = Some \<lparr>displayName = ''Category''\<rparr>,
      DataViewCategoryColumn.values = categoryValues,
      DataViewCategoryColumn.objects = None\<rparr>"

definition exampleDataValue :: "PrimitiveValue list \<Rightarrow> DataViewValueColumn" where
  "exampleDataValue dataValues =
     \<lparr>DataViewValueColumn.values = dataValues, maxLocal = Some (PNumber 10)\<rparr>"

definition exampleDataView :: "PrimitiveValue list \<Rightarrow> PrimitiveValue list \<Rightarrow> DataView" where
  "exampleDataView categoryValues dataValues =
     \<lparr>metadata = \<lparr>DataViewMetadata.objects = None\<rparr>,
      categorical = Some
        \<lparr>categories = Some [exampleCategory categoryValues],
         DataViewCategorical.values = Some [exampleDataValue dataValues]\<rparr>\<rparr>"

definition exampleOptions :: "PrimitiveValue list \<Rightarrow> PrimitiveValue list \<Rightarrow> VisualUpdateOptions" where
  "exampleOptions categoryValues dataValues =
     \<lparr>dataViews = Some [exampleDataView categoryValues dataValues]\<rparr>"

definition examplePoint :: "string \<Rightarrow> string \<Rightarrow> nat \<Rightarrow> nat BarChartDataPoint" where
  "examplePoint color' endColor' sid =
     \<lparr>value = Some (PNumber 3), category = ''A'', color = color', endColor = endColor',
      strokeColor = None, strokeWidth = 0, selectionId = sid\<rparr>"

definition exampleBar :: "nat \<Rightarrow> nat Bar" where
  "exampleBar sid =
     \<lparr>datum = examplePoint ''#ff0000'' ''#990000'' sid, fillOpacity = Some 1, strokeOpacity = Some 1\<rparr>"

section \<open>Properties\<close>

subsection \<open>Reading and writing hexadecimal digits\<close>

lemma isHexDigit_facts:
  assumes "isHexDigit c"
  shows "\<not> isWhiteSpace c" "c \<noteq> CHR ''-''" "c \<noteq> CHR ''+''" "c \<noteq> CHR ''x''" "c \<noteq> CHR ''X''"
    "isRadixDigit 16 c" "digitOf c < 16"
  using assms
  by (auto simp: isHexDigit_def isWhiteSpace_def isRadixDigit_def digitOf_def digitValue_def)

lemma parseInt_two_hex:
  assumes "isHexDigit a" "isHexDigit b"
  shows "parseInt [a, b] 16 = Some (int (16 * digitOf a + digitOf b))"
  using isHexDigit_facts[OF assms(1)] isHexDigit_facts[OF assms(2)]
  by (simp add: parseInt_def Let_def)

lemma channel_bounds:
  assumes "isHexDigit a" "isHexDigit b"
  shows "0 \<le> int (16 * digitOf a + digitOf b)" "int (16 * digitOf a + digitOf b) \<le> 255"
  using isHexDigit_facts(7)[OF assms(1)] isHexDigit_facts(7)[OF assms(2)] by simp_all

lemma scaled_bounds:
  fixes r :: int
  assumes "0 \<le> r" "r \<le> 255"
  shows "0 \<le> r * 60 div 100" "r * 60 div 100 < 256" "r * 60 div 100 \<le> r"
  using assms by linarith+

lemma scale_cap:
  assumes "0 \<le> r" "r \<le> 255"
  shows "capChannel (scaleChannel (Some r) (- 40)) = r * 60 div 100"
proof -
  have "(of_int r * (100 + of_int (- 40)) / 100 :: real) = of_int (r * 60) / of_int 100"
    by simp
  then have fl: "\<lfloor>(of_int r * (100 + of_int (- 40)) / 100 :: real)\<rfloor> = r * 60 div 100"
    by (simp only: floor_divide_of_int_eq)
  have nn: "\<not> (of_int r * (100 + of_int (- 40)) / 100 :: real) < 0"
    using assms by simp
  have "r * 60 div 100 < 255" using assms by linarith
  then show ?thesis
    using fl nn by (simp add: capChannel_def scaleChannel_def parseIntOfNumber_def trunc_def)
qed

lemma trunc_scaled:
  assumes "0 \<le> r" "r \<le> 255"
  shows "clamp (trunc (of_int r * (100 - 40) / 100)) 0 255 = r * 60 div 100"
proof -
  have "(of_int r * (100 - 40) / 100 :: real) = of_int (r * 60) / of_int 100"
    by simp
  then have fl: "\<lfloor>(of_int r * (100 - 40) / 100 :: real)\<rfloor> = r * 60 div 100"
    by (simp only: floor_divide_of_int_eq)
  have nn: "\<not> (of_int r * (100 - 40) / 100 :: real) < 0"
    using assms by simp
  have "0 \<le> r * 60 div 100" "r * 60 div 100 \<le> 255" using assms by linarith+
  then show ?thesis
    using fl nn by (simp add: trunc_def clamp_def)
qed

lemma hexDigits_small: "n < 16 \<Longrightarrow> hexDigits n = [hexChar n]"
  by (simp add: hexDigits.simps)

lemma hexDigits_two:
  "16 \<le> n \<Longrightarrow> n < 256 \<Longrightarrow> hexDigits n = [hexChar (n div 16), hexChar (n mod 16)]"
  by (subst hexDigits.simps) (simp add: hexDigits_small less_mult_imp_div_less)

lemma hexChar_zero: "hexChar 0 = CHR ''0''"
  by (simp add: hexChar_def)

lemma padHex_hex2:
  assumes "0 \<le> v" "v < 256"
  shows "padHex v = hex2 v"
proof (cases "nat v < 16")
  case True
  then show ?thesis using assms
    by (simp add: padHex_def toString16_def hexDigits_small hex2_def hexChar_zero)
next
  case False
  then have "16 \<le> nat v" "nat v < 256" using assms by auto
  then show ?thesis using assms
    by (simp add: padHex_def toString16_def hexDigits_two hex2_def)
qed

lemma hexChar_digit_all:
  "\<forall>d\<in>set [0..<16]. isHexDigit (hexChar d) \<and> digitOf (hexChar d) = d"
  by code_simp

lemma hexChar_digit:
  assumes "d < 16"
  shows "isHexDigit (hexChar d)" "digitOf (hexChar d) = d"
  using assms hexChar_digit_all by simp_all

lemma isHexColor_cases:
  assumes "isHexColor c"
  obtains a1 a2 a3 a4 a5 a6 where "c = [CHR ''#'', a1, a2, a3, a4, a5, a6]"
    "isHexDigit a1" "isHexDigit a2" "isHexDigit a3" "isHexDigit a4" "isHexDigit a5" "isHexDigit a6"
proof -
  from assms have "length c = 7" by (simp add: isHexColor_def)
  then obtain x0 a1 a2 a3 a4 a5 a6 where c: "c = [x0, a1, a2, a3, a4, a5, a6]"
    by (auto simp: eval_nat_numeral length_Suc_conv)
  with assms show thesis
    using that by (simp add: isHexColor_def)
qed

subsection \<open>shadeColor on valid colours\<close>

lemma shade_channel:
  assumes "isHexDigit a" "isHexDigit b"
  shows "padHex (capChannel (scaleChannel (parseInt [a, b] 16) (- 40)))
         = hex2 (int (16 * digitOf a + digitOf b) * 60 div 100)"
proof -
  let ?r = "int (16 * digitOf a + digitOf b)"
  have b: "0 \<le> ?r" "?r \<le> 255" using channel_bounds[OF assms] by simp_all
  show ?thesis
    by (simp only: parseInt_two_hex[OF assms] scale_cap[OF b] padHex_hex2[OF scaled_bounds(1,2)[OF b]])
qed

lemma shadeColor_hex:
  assumes "isHexDigit a1" "isHexDigit a2" "isHexDigit a3" "isHexDigit a4" "isHexDigit a5" "isHexDigit a6"
  shows "shadeColor [CHR ''#'', a1, a2, a3, a4, a5, a6] (- 40) =
         ''#'' @ hex2 (int (16 * digitOf a1 + digitOf a2) * 60 div 100)
              @ hex2 (int (16 * digitOf a3 + digitOf a4) * 60 div 100)
              @ hex2 (int (16 * digitOf a5 + digitOf a6) * 60 div 100)"
proof -
  have s: "substring [CHR ''#'', a1, a2, a3, a4, a5, a6] 1 3 = [a1, a2]"
    "substring [CHR ''#'', a1, a2, a3, a4, a5, a6] 3 5 = [a3, a4]"
    "substring [CHR ''#'', a1, a2, a3, a4, a5, a6] 5 7 = [a5, a6]"
    by (simp_all add: substring_def)
  show ?thesis
    unfolding shadeColor_def Let_def s
    by (simp only: shade_channel assms)
qed

text \<open>
  C3, as amended. For every valid \<open>#RRGGBB\<close> colour, \<open>shadeColor(color, -40)\<close> computes
  each of the three channels as \<open>clamp(trunc(channel * (100 - 40) / 100), 0, 255)\<close>, where
  \<open>trunc\<close> cuts the fraction off (the code reads the quotient back with \<open>parseInt\<close>; it
  does not round), writes each result as exactly two hexadecimal digits and returns them
  after \<open>#\<close>.
\<close>

theorem shadeColor_truncates:
  assumes "isHexColor c"
  shows "shadeColor c (- 40) = shadeChannels trunc c"
proof -
  from assms obtain a1 a2 a3 a4 a5 a6 where c: "c = [CHR ''#'', a1, a2, a3, a4, a5, a6]"
    and h: "isHexDigit a1" "isHexDigit a2" "isHexDigit a3" "isHexDigit a4" "isHexDigit a5" "isHexDigit a6"
    by (rule isHexColor_cases)
  have ch: "channel c 0 = int (16 * digitOf a1 + digitOf a2)"
    "channel c 1 = int (16 * digitOf a3 + digitOf a4)"
    "channel c 2 = int (16 * digitOf a5 + digitOf a6)"
    by (simp_all add: channel_def c)
  show ?thesis
    unfolding shadeChannels_def ch
    by (simp only: c shadeColor_hex[OF h] trunc_scaled channel_bounds h)
qed

theorem shadeColor_truncates_witness:
  "isHexColor ''#336699'' \<and> shadeColor ''#336699'' (- 40) = shadeChannels trunc ''#336699''
   \<and> shadeChannels trunc ''#336699'' = ''#1e3d5b''"
proof -
  have h: "isHexColor ''#336699''"
    by (simp add: isHexColor_def isHexDigit_def)
  have "shadeChannels trunc ''#336699'' = ''#1e3d5b''"
    by (simp add: shadeChannels_def channel_def digitOf_def digitValue_def trunc_def
        clamp_def hex2_def hexChar_def)
  then show ?thesis
    using h shadeColor_truncates[OF h] by simp
qed

text \<open>
  C3, as the specification states it (with \<open>round\<close>), fails at \<open>#990000\<close>: the red channel
  is 153, the quotient 91.8, which the code cuts to 91 (\<open>5b\<close>) and rounding takes to 92
  (\<open>5c\<close>).
\<close>

theorem shadeColor_round_counterexample:
  "isHexColor ''#990000'' \<and> shadeColor ''#990000'' (- 40) = ''#5b0000''
   \<and> shadeColor_spec ''#990000'' = ''#5c0000''"
  by (simp add: shadeColor_def substring_def parseInt_def isWhiteSpace_def isRadixDigit_def
      scaleChannel_def parseIntOfNumber_def trunc_def capChannel_def padHex_def
      toString16_def hexDigits.simps isHexColor_def isHexDigit_def shadeColor_spec_def
      shadeChannels_def channel_def digitOf_def digitValue_def round_def clamp_def hex2_def
      hexChar_def Let_def)

lemma hex2_facts:
  assumes "0 \<le> v" "v < 256"
  shows "list_all isHexDigit (hex2 v)" "int (16 * digitOf (hex2 v ! 0) + digitOf (hex2 v ! 1)) = v"
proof -
  have d: "nat v div 16 < 16" "nat v mod 16 < 16" using assms by auto
  show "list_all isHexDigit (hex2 v)"
    by (simp add: hex2_def hexChar_digit[OF d(1)] hexChar_digit[OF d(2)])
  show "int (16 * digitOf (hex2 v ! 0) + digitOf (hex2 v ! 1)) = v"
    using assms by (simp add: hex2_def hexChar_digit[OF d(1)] hexChar_digit[OF d(2)])
qed

lemma length_hex2: "length (hex2 v) = 2"
  by (simp add: hex2_def)

text \<open>
  C9. For every valid hex colour \<open>c\<close>, \<open>shadeColor(c, -40)\<close> is a function of \<open>c\<close> alone
  (equal inputs give equal outputs), its output is a well-formed \<open>#RRGGBB\<close> string of
  exactly six hexadecimal digits, and every channel of the output is at most the same
  channel of the input.
\<close>

theorem shadeColor_darkens:
  assumes "isHexColor c"
  shows "isHexColor (shadeColor c (- 40))
    \<and> (\<forall>k<3. channel (shadeColor c (- 40)) k \<le> channel c k)
    \<and> (\<forall>c'. c' = c \<longrightarrow> shadeColor c' (- 40) = shadeColor c (- 40))"
proof -
  from assms obtain a1 a2 a3 a4 a5 a6 where c: "c = [CHR ''#'', a1, a2, a3, a4, a5, a6]"
    and h: "isHexDigit a1" "isHexDigit a2" "isHexDigit a3" "isHexDigit a4" "isHexDigit a5" "isHexDigit a6"
    by (rule isHexColor_cases)
  define r where "r = int (16 * digitOf a1 + digitOf a2)"
  define g where "g = int (16 * digitOf a3 + digitOf a4)"
  define b where "b = int (16 * digitOf a5 + digitOf a6)"
  have rb: "0 \<le> r" "r \<le> 255" and gb: "0 \<le> g" "g \<le> 255" and bb: "0 \<le> b" "b \<le> 255"
    using channel_bounds h by (simp_all add: r_def g_def b_def)
  have out: "shadeColor c (- 40) = ''#'' @ hex2 (r * 60 div 100) @ hex2 (g * 60 div 100) @ hex2 (b * 60 div 100)"
    by (simp only: c shadeColor_hex[OF h] r_def g_def b_def)
  note R = hex2_facts[OF scaled_bounds(1,2)[OF rb]]
  note G = hex2_facts[OF scaled_bounds(1,2)[OF gb]]
  note B = hex2_facts[OF scaled_bounds(1,2)[OF bb]]
  have wf: "isHexColor (shadeColor c (- 40))"
    using R(1) G(1) B(1) by (simp add: out isHexColor_def length_hex2)
  have ch_in: "channel c 0 = r" "channel c 1 = g" "channel c 2 = b"
    by (simp_all add: channel_def c r_def g_def b_def)
  have ch_out: "channel (shadeColor c (- 40)) 0 = r * 60 div 100"
    "channel (shadeColor c (- 40)) 1 = g * 60 div 100"
    "channel (shadeColor c (- 40)) 2 = b * 60 div 100"
    using R(2) G(2) B(2) by (simp_all add: channel_def out nth_append length_hex2 nth_Cons')
  have l: "channel (shadeColor c (- 40)) 0 \<le> channel c 0"
    "channel (shadeColor c (- 40)) 1 \<le> channel c 1"
    "channel (shadeColor c (- 40)) 2 \<le> channel c 2"
    by (simp_all only: ch_in ch_out scaled_bounds(3)[OF rb] scaled_bounds(3)[OF gb]
        scaled_bounds(3)[OF bb])
  have le: "channel (shadeColor c (- 40)) k \<le> channel c k" if "k < 3" for k
  proof -
    from that consider "k = 0" | "k = 1" | "k = 2" by linarith
    then show ?thesis
      using l by cases simp_all
  qed
  show ?thesis using wf le by simp
qed

theorem shadeColor_darkens_witness:
  "isHexColor ''#FF8000'' \<and> shadeColor ''#FF8000'' (- 40) = ''#994c00''
   \<and> isHexColor ''#994c00''
   \<and> channel ''#994c00'' 0 \<le> channel ''#FF8000'' 0
   \<and> channel ''#994c00'' 1 \<le> channel ''#FF8000'' 1
   \<and> channel ''#994c00'' 2 \<le> channel ''#FF8000'' 2"
proof -
  have h: "isHexColor ''#FF8000''"
    by (simp add: isHexColor_def isHexDigit_def)
  have e: "shadeColor ''#FF8000'' (- 40) = ''#994c00''"
    by (simp add: shadeColor_def substring_def parseInt_def isWhiteSpace_def isRadixDigit_def
      digitValue_def digitOf_def scaleChannel_def parseIntOfNumber_def trunc_def capChannel_def
      padHex_def toString16_def hexDigits.simps hexChar_def Let_def)
  from shadeColor_darkens[OF h] show ?thesis
    using h by (simp add: e)
qed

subsection \<open>High contrast\<close>

text \<open>
  C7. In high-contrast mode, for every palette, category column and index,
  \<open>getColumnColorByIndex\<close> returns the theme's background colour for the fill colour and
  for the end colour, the stroke width is exactly 2 and the stroke colour is the theme's
  foreground colour.
\<close>

theorem highContrast_colors:
  assumes "isHighContrast colorPalette'"
  shows "getColumnColorByIndex js category' index colorPalette' False = background colorPalette'
    \<and> getColumnColorByIndex js category' index colorPalette' True = background colorPalette'
    \<and> getColumnStrokeWidth (isHighContrast colorPalette') = 2
    \<and> getColumnStrokeColor colorPalette' = Some (foreground colorPalette')"
  using assms
  by (simp add: getColumnColorByIndex_def getColumnStrokeWidth_def getColumnStrokeColor_def)

theorem highContrast_colors_witness:
  "isHighContrast (colorPalette exampleHighContrastHost)
   \<and> getColumnColorByIndex exampleJs (exampleCategory [PString ''A'']) 0
        (colorPalette exampleHighContrastHost) False = ''#000000''
   \<and> getColumnColorByIndex exampleJs (exampleCategory [PString ''A'']) 0
        (colorPalette exampleHighContrastHost) True = ''#000000''
   \<and> getColumnStrokeWidth (isHighContrast (colorPalette exampleHighContrastHost)) = 2
   \<and> getColumnStrokeColor (colorPalette exampleHighContrastHost) = Some ''#ffffff''"
proof -
  have h: "isHighContrast (colorPalette exampleHighContrastHost)"
    by (simp add: exampleHighContrastHost_def)
  from highContrast_colors[OF h, of exampleJs "exampleCategory [PString ''A'']" 0]
  show ?thesis
    using h by (simp add: exampleHighContrastHost_def examplePalette_def)
qed

subsection \<open>visualTransform\<close>

lemma pushDataPoints_eq: "pushDataPoints point i len acc = acc @ map point [i..<len]"
proof (induction point i len acc rule: pushDataPoints.induct)
  case (1 point i len acc)
  show ?case
  proof (cases "i < len")
    case True
    then show ?thesis
      using "1" by (subst pushDataPoints.simps) (simp add: upt_rec[of i len])
  next
    case False
    then show ?thesis by (subst pushDataPoints.simps) simp
  qed
qed

lemma visualTransform_data:
  assumes "dataViews options = Some (dataView # dvs)"
    and "categorical dataView = Some cl"
    and "categories cl = Some (cat # cs)"
    and "source cat = Some src"
    and "DataViewCategorical.values cl = Some (dataValue # vs)"
  shows "visualTransform js options host =
     Inr \<lparr>dataPoints =
            map (dataPoint js host cat dataValue (getColumnStrokeColor (colorPalette host))
                   (getColumnStrokeWidth (isHighContrast (colorPalette host))))
              [0..<max (length (DataViewCategoryColumn.values cat))
                       (length (DataViewValueColumn.values dataValue))],
          dataMax = maxLocal dataValue,
          settings =
            \<lparr>enableAxis = Some
               \<lparr>show = getValue (DataViewMetadata.objects (metadata dataView))
                         DataViewObjects.enableAxis EnableAxisObject.show (show defaultEnableAxis),
                fill = getAxisTextFillColor (DataViewMetadata.objects (metadata dataView))
                         (colorPalette host) (fill defaultEnableAxis)\<rparr>,
             generalView = Some
               \<lparr>opacity = getValue (DataViewMetadata.objects (metadata dataView))
                            DataViewObjects.generalView GeneralViewObject.opacity
                            (opacity defaultGeneralView),
                showHelpLink = getValue (DataViewMetadata.objects (metadata dataView))
                            DataViewObjects.generalView GeneralViewObject.showHelpLink
                            (showHelpLink defaultGeneralView),
                helpLinkColor = getColumnStrokeColor (colorPalette host)\<rparr>\<rparr>\<rparr>"
  by (simp add: visualTransform_def assms elemAt_def Let_def pushDataPoints_eq)

lemma exampleOptions_shape:
  "dataViews (exampleOptions cvs dvs) = Some (exampleDataView cvs dvs # [])"
  "categorical (exampleDataView cvs dvs) =
     Some \<lparr>categories = Some [exampleCategory cvs],
           DataViewCategorical.values = Some [exampleDataValue dvs]\<rparr>"
  "categories \<lparr>categories = Some [exampleCategory cvs],
           DataViewCategorical.values = Some [exampleDataValue dvs]\<rparr> = Some (exampleCategory cvs # [])"
  "source (exampleCategory cvs) = Some \<lparr>displayName = ''Category''\<rparr>"
  "DataViewCategorical.values \<lparr>categories = Some [exampleCategory cvs],
           DataViewCategorical.values = Some [exampleDataValue dvs]\<rparr> = Some (exampleDataValue dvs # [])"
  by (simp_all add: exampleOptions_def exampleDataView_def exampleCategory_def)

text \<open>
  C1. The claim is that \<open>visualTransform\<close> returns the zero-value view model with the
  default settings for a raw result that is absent or lacks a category source or a value
  column. On each of the three the function returns the view model it starts from: no data
  points and \<open>dataMax = 0\<close>, but settings that are the empty object \<open>{}\<close>, not the default
  settings the function has built by then.
\<close>

theorem visualTransform_no_data:
  "visualTransform js \<lparr>dataViews = None\<rparr> host = Inr viewModel
   \<and> visualTransform js
        \<lparr>dataViews = Some (\<lparr>metadata = md, categorical = Some
            \<lparr>categories = Some (\<lparr>source = None, DataViewCategoryColumn.values = cvs,
                                 DataViewCategoryColumn.objects = cobjs\<rparr> # cs),
             DataViewCategorical.values = vs\<rparr>\<rparr> # dvs)\<rparr> host = Inr viewModel
   \<and> visualTransform js
        \<lparr>dataViews = Some (\<lparr>metadata = md, categorical = Some
            \<lparr>categories = Some (\<lparr>source = Some src, DataViewCategoryColumn.values = cvs,
                                 DataViewCategoryColumn.objects = cobjs\<rparr> # cs),
             DataViewCategorical.values = None\<rparr>\<rparr> # dvs)\<rparr> host = Inr viewModel
   \<and> dataPoints viewModel = []
   \<and> dataMax viewModel = Some (PNumber 0)
   \<and> settings viewModel = \<lparr>enableAxis = None, generalView = None\<rparr>
   \<and> settings viewModel \<noteq> defaultSettings"
  by (simp add: visualTransform_def viewModel_def defaultSettings_def)

text \<open>
  C2. The claim is that \<open>visualTransform\<close> never throws. With a categories array that is
  present and empty the guard reads \<open>categories[0].source\<close> of \<open>undefined\<close>, and with a
  values array that is present and empty the loop header reads \<open>dataValue.values\<close> of
  \<open>undefined\<close>: both throw a \<open>TypeError\<close>, where the guard does test \<open>dataViews[0]\<close>
  before it reads through it.
\<close>

theorem visualTransform_empty_array_throws:
  "visualTransform js
      \<lparr>dataViews = Some (\<lparr>metadata = md, categorical = Some
          \<lparr>categories = Some [], DataViewCategorical.values = vs\<rparr>\<rparr> # dvs)\<rparr> host
    = Inl TypeError
   \<and> visualTransform js
      \<lparr>dataViews = Some (\<lparr>metadata = md, categorical = Some
          \<lparr>categories = Some (\<lparr>source = Some src, DataViewCategoryColumn.values = cvs,
                               DataViewCategoryColumn.objects = cobjs\<rparr> # cs),
           DataViewCategorical.values = Some []\<rparr>\<rparr> # dvs)\<rparr> host
    = Inl TypeError"
  by (simp add: visualTransform_def elemAt_def)

text \<open>
  C5. For every category column and value column of lengths \<open>m\<close> and \<open>n\<close> of a raw result
  (with a category source), \<open>visualTransform\<close> returns a view model with exactly
  \<open>max m n\<close> data points; a point at an index beyond the value column has the absent
  value (\<open>undefined\<close>), a point at an index beyond the category column the coercion of the
  absent category value, and nothing fails.
\<close>

theorem visualTransform_point_count:
  assumes "dataViews options = Some (dataView # dvs)"
    and "categorical dataView = Some cl"
    and "categories cl = Some (cat # cs)"
    and "source cat = Some src"
    and "DataViewCategorical.values cl = Some (dataValue # vs)"
  shows "\<exists>vm. visualTransform js options host = Inr vm
    \<and> length (dataPoints vm) =
        max (length (DataViewCategoryColumn.values cat)) (length (DataViewValueColumn.values dataValue))
    \<and> (\<forall>i<length (dataPoints vm).
          value (dataPoints vm ! i) =
            (if i < length (DataViewValueColumn.values dataValue)
             then Some (DataViewValueColumn.values dataValue ! i) else None)
        \<and> category (dataPoints vm ! i) =
            templateString js
              (if i < length (DataViewCategoryColumn.values cat)
               then Some (DataViewCategoryColumn.values cat ! i) else None))"
  by (simp add: visualTransform_data[OF assms] dataPoint_def elemAt_def)

theorem visualTransform_point_count_witness:
  "map_sum id (\<lambda>vm. map value (dataPoints vm))
      (visualTransform exampleJs
         (exampleOptions [PString ''A'', PString ''B'', PString ''C''] [PNumber 3, PNumber 7])
         exampleHost)
    = Inr [Some (PNumber 3), Some (PNumber 7), None]
   \<and> map_sum id (\<lambda>vm. map category (dataPoints vm))
      (visualTransform exampleJs
         (exampleOptions [PString ''A''] [PNumber 3, PNumber 7])
         exampleHost)
    = Inr [''A'', ''undefined'']"
proof -
  let ?A = "[PString ''A'', PString ''B'', PString ''C'']" and ?B = "[PNumber 3, PNumber 7]"
  let ?A' = "[PString ''A'']"
  note sh = exampleOptions_shape
  from visualTransform_point_count[OF sh(1)[of ?A ?B] sh(2)[of ?A ?B] sh(3)[of ?A ?B]
      sh(4)[of ?A] sh(5)[of ?A ?B], where js = exampleJs and host = exampleHost]
  obtain vm where vm: "visualTransform exampleJs
         (exampleOptions [PString ''A'', PString ''B'', PString ''C''] [PNumber 3, PNumber 7])
         exampleHost = Inr vm"
    and len: "length (dataPoints vm) = 3"
    and pts: "\<forall>i<length (dataPoints vm). value (dataPoints vm ! i) =
            (if i < 2 then Some ([PNumber 3, PNumber 7] ! i) else None)"
    by (auto simp: exampleCategory_def exampleDataValue_def)
  have 1: "map value (dataPoints vm) = [Some (PNumber 3), Some (PNumber 7), None]"
    using len pts by (simp add: list_eq_iff_nth_eq less_Suc_eq eval_nat_numeral)
  from visualTransform_point_count[OF sh(1)[of ?A' ?B] sh(2)[of ?A' ?B] sh(3)[of ?A' ?B]
      sh(4)[of ?A'] sh(5)[of ?A' ?B], where js = exampleJs and host = exampleHost]
  obtain vm' where vm': "visualTransform exampleJs
         (exampleOptions [PString ''A''] [PNumber 3, PNumber 7]) exampleHost = Inr vm'"
    and len': "length (dataPoints vm') = 2"
    and pts': "\<forall>i<length (dataPoints vm'). category (dataPoints vm' ! i) =
            templateString exampleJs (if i < 1 then Some ([PString ''A''] ! i) else None)"
    by (auto simp: exampleCategory_def exampleDataValue_def)
  have 2: "map category (dataPoints vm') = [''A'', ''undefined'']"
    using len' pts' by (simp add: list_eq_iff_nth_eq less_Suc_eq eval_nat_numeral)
  show ?thesis by (simp add: vm vm' 1 2)
qed

lemma getValue_noPersisted:
  assumes "noPersistedSettings objs"
  shows "getValue objs DataViewObjects.enableAxis EnableAxisObject.show d1 = d1"
    "getValue objs DataViewObjects.enableAxis EnableAxisObject.fill d2 = d2"
    "getValue objs DataViewObjects.generalView GeneralViewObject.opacity d3 = d3"
    "getValue objs DataViewObjects.generalView GeneralViewObject.showHelpLink d4 = d4"
  using assms
  by (auto simp: getValue_def noPersistedSettings_def split: option.splits)

text \<open>
  C8, as amended. When no persisted object property is present and high-contrast mode is
  off, the settings \<open>visualTransform\<close> resolves for a raw result with a category source
  and a value column are: axis hidden, axis fill black, opacity 100, help link hidden, and
  a help link colour that is \<open>null\<close> (it is the column stroke colour, which is set in
  high-contrast mode only), not the blue of the defaults.
\<close>

theorem visualTransform_settings_no_persisted:
  assumes "dataViews options = Some (dataView # dvs)"
    and "categorical dataView = Some cl"
    and "categories cl = Some (cat # cs)"
    and "source cat = Some src"
    and "DataViewCategorical.values cl = Some (dataValue # vs)"
    and "noPersistedSettings (DataViewMetadata.objects (metadata dataView))"
    and "\<not> isHighContrast (colorPalette host)"
  shows "\<exists>vm. visualTransform js options host = Inr vm
    \<and> settings vm =
        \<lparr>enableAxis = Some \<lparr>show = False, fill = ''#000000''\<rparr>,
         generalView = Some \<lparr>opacity = 100, showHelpLink = False, helpLinkColor = None\<rparr>\<rparr>"
  by (simp add: visualTransform_data[OF assms(1-5)] getValue_noPersisted[OF assms(6)] assms(7)
      getAxisTextFillColor_def getColumnStrokeColor_def defaultEnableAxis_def defaultGeneralView_def)

theorem visualTransform_settings_no_persisted_witness:
  "noPersistedSettings (DataViewMetadata.objects (metadata (exampleDataView [PString ''A''] [PNumber 3])))
   \<and> \<not> isHighContrast (colorPalette exampleHost)
   \<and> map_sum id settings
        (visualTransform exampleJs (exampleOptions [PString ''A''] [PNumber 3]) exampleHost)
      = Inr \<lparr>enableAxis = Some \<lparr>show = False, fill = ''#000000''\<rparr>,
             generalView = Some \<lparr>opacity = 100, showHelpLink = False, helpLinkColor = None\<rparr>\<rparr>"
proof -
  let ?A = "[PString ''A'']" and ?B = "[PNumber 3]"
  note sh = exampleOptions_shape
  have n: "noPersistedSettings (DataViewMetadata.objects (metadata (exampleDataView ?A ?B)))"
    by (simp add: noPersistedSettings_def exampleDataView_def)
  have h: "\<not> isHighContrast (colorPalette exampleHost)"
    by (simp add: exampleHost_def examplePalette_def)
  from visualTransform_settings_no_persisted[OF sh(1)[of ?A ?B] sh(2)[of ?A ?B] sh(3)[of ?A ?B]
      sh(4)[of ?A] sh(5)[of ?A ?B] n h, where js = exampleJs]
  show ?thesis using n h by auto
qed

text \<open>
  C8, as the specification states it, fails on the example: the resolved settings are not
  the defaults, whose help link colour is \<open>#80B0E0\<close>.
\<close>

theorem visualTransform_settings_counterexample:
  "noPersistedSettings (DataViewMetadata.objects (metadata (exampleDataView [PString ''A''] [PNumber 3])))
   \<and> \<not> isHighContrast (colorPalette exampleHost)
   \<and> map_sum id settings
        (visualTransform exampleJs (exampleOptions [PString ''A''] [PNumber 3]) exampleHost)
      = Inr \<lparr>enableAxis = Some \<lparr>show = False, fill = ''#000000''\<rparr>,
             generalView = Some \<lparr>opacity = 100, showHelpLink = False, helpLinkColor = None\<rparr>\<rparr>
   \<and> map_sum id settings
        (visualTransform exampleJs (exampleOptions [PString ''A''] [PNumber 3]) exampleHost)
      \<noteq> Inr defaultSettings"
  by (simp add: visualTransform_data[OF exampleOptions_shape] noPersistedSettings_def
      exampleDataView_def exampleHost_def examplePalette_def getValue_def getAxisTextFillColor_def
      getColumnStrokeColor_def defaultEnableAxis_def defaultGeneralView_def defaultSettings_def)

text \<open>
  C10. For every data point \<open>visualTransform\<close> produces, the category is the template
  coercion of the raw category value at its index; at an index beyond the category column
  it is the string \<open>undefined\<close>; and outside high-contrast mode the category string is the
  key the palette is asked for the colour that the fill colour and (shaded) the end colour
  default to.
\<close>

theorem visualTransform_category_string:
  assumes "dataViews options = Some (dataView # dvs)"
    and "categorical dataView = Some cl"
    and "categories cl = Some (cat # cs)"
    and "source cat = Some src"
    and "DataViewCategorical.values cl = Some (dataValue # vs)"
  shows "\<exists>vm. visualTransform js options host = Inr vm
    \<and> (\<forall>i<length (dataPoints vm).
          category (dataPoints vm ! i) = templateString js (elemAt (DataViewCategoryColumn.values cat) i)
        \<and> (length (DataViewCategoryColumn.values cat) \<le> i \<longrightarrow>
              category (dataPoints vm ! i) = ''undefined'')
        \<and> (\<not> isHighContrast (colorPalette host) \<longrightarrow>
              color (dataPoints vm ! i) =
                solidColor (getCategoricalObjectValue cat i DataViewObjects.colorSelector
                  ColorSelectorObject.fill
                  \<lparr>solidColor = getColor (colorPalette host) (category (dataPoints vm ! i))\<rparr>)
            \<and> endColor (dataPoints vm ! i) =
                solidColor (getCategoricalObjectValue cat i DataViewObjects.colorSelector
                  ColorSelectorObject.endFill
                  \<lparr>solidColor =
                     shadeColor (getColor (colorPalette host) (category (dataPoints vm ! i))) (- 40)\<rparr>)))"
  by (simp add: visualTransform_data[OF assms] dataPoint_def elemAt_def getColumnColorByIndex_def
      Let_def)

theorem visualTransform_category_string_witness:
  "map_sum id (\<lambda>vm. map (\<lambda>p. (category p, color p)) (dataPoints vm))
      (visualTransform exampleJs (exampleOptions [PString ''A''] [PNumber 3, PNumber 7]) exampleHost)
    = Inr [(''A'', ''#ff0000''), (''undefined'', ''#336699'')]"
proof -
  let ?A = "[PString ''A'']" and ?B = "[PNumber 3, PNumber 7]"
  note sh = exampleOptions_shape
  from visualTransform_category_string[OF sh(1)[of ?A ?B] sh(2)[of ?A ?B] sh(3)[of ?A ?B]
      sh(4)[of ?A] sh(5)[of ?A ?B], where js = exampleJs and host = exampleHost]
  obtain vm where vm: "visualTransform exampleJs (exampleOptions ?A ?B) exampleHost = Inr vm"
    and pts: "\<forall>i<length (dataPoints vm).
        category (dataPoints vm ! i) = templateString exampleJs (elemAt ?A i)
        \<and> color (dataPoints vm ! i) = getColor examplePalette (category (dataPoints vm ! i))"
    by (auto simp: exampleCategory_def exampleHost_def examplePalette_def
        getCategoricalObjectValue_def)
  have len: "length (dataPoints vm) = 2"
    using vm by (auto simp: visualTransform_data[OF sh] exampleCategory_def exampleDataValue_def)
  have "map (\<lambda>p. (category p, color p)) (dataPoints vm) = [(''A'', ''#ff0000''), (''undefined'', ''#336699'')]"
    using len pts
    by (simp add: list_eq_iff_nth_eq less_Suc_eq eval_nat_numeral elemAt_def examplePalette_def)
  then show ?thesis by (simp add: vm)
qed

subsection \<open>The gradient cache\<close>

lemma selectEmpty_iff: "selectEmpty svg i \<longleftrightarrow> (\<forall>g\<in>set svg. id' g \<noteq> i)"
  by (auto simp: selectEmpty_def find_None_iff)

lemma createGradient_registered:
  "\<not> selectEmpty (createGradient svg p) (gradientId (color p) (endColor p))"
  by (simp add: createGradient_def Let_def selectEmpty_iff)

lemma createGradient_again:
  assumes "color q = color p" "endColor q = endColor p"
  shows "createGradient (createGradient svg p) q = createGradient svg p"
  using createGradient_registered[of svg p]
  by (simp add: createGradient_def[of "createGradient svg p" q] assms Let_def)

lemma createGradient_count:
  "length (filter (\<lambda>g. id' g = gradientId (color p) (endColor p)) (createGradient svg p))
   = max 1 (length (filter (\<lambda>g. id' g = gradientId (color p) (endColor p)) svg))"
proof (cases "selectEmpty svg (gradientId (color p) (endColor p))")
  case True
  then have "filter (\<lambda>g. id' g = gradientId (color p) (endColor p)) svg = []"
    by (auto simp: selectEmpty_iff filter_empty_conv)
  with True show ?thesis by (simp add: createGradient_def Let_def)
next
  case False
  then have "filter (\<lambda>g. id' g = gradientId (color p) (endColor p)) svg \<noteq> []"
    by (auto simp: selectEmpty_iff filter_empty_conv)
  then have "1 \<le> length (filter (\<lambda>g. id' g = gradientId (color p) (endColor p)) svg)"
    by (simp add: Suc_le_eq)
  with False show ?thesis by (simp add: createGradient_def Let_def)
qed

lemma gradientId_swap:
  assumes "isHexColor a" "isHexColor b" "a \<noteq> b"
  shows "gradientId a b \<noteq> gradientId b a"
proof
  assume eq: "gradientId a b = gradientId b a"
  have la: "length (drop 1 a) = length (drop 1 b)"
    using assms by (simp add: isHexColor_def)
  from eq have "drop 1 a @ (''_'' @ drop 1 b) = drop 1 b @ (''_'' @ drop 1 a)"
    by (simp only: gradientId_def substr_def same_append_eq)
  then have d: "drop 1 a = drop 1 b"
    using la append_eq_append_conv[of "drop 1 a" "drop 1 b" "''_'' @ drop 1 b" "''_'' @ drop 1 a"]
    by blast
  have "take 1 a = take 1 b"
    using assms(1,2) by (simp add: isHexColor_def)
  then have "take 1 a @ drop 1 a = take 1 b @ drop 1 b"
    using d by (simp only:)
  then have "a = b"
    by (simp only: append_take_drop_id)
  with assms(3) show False by contradiction
qed

text \<open>
  C6. The gradient cache is idempotent and order-sensitive. For valid colours \<open>a\<close> and
  \<open>b\<close>, and data points \<open>p\<close> with the colours \<open>(a, b)\<close> and \<open>q\<close> with \<open>(b, a)\<close>:
  ensuring the gradient of \<open>p\<close> a second time leaves the surface as the first time left it,
  with one registration under the id of \<open>(a, b)\<close> where there was none (and no more than
  there were otherwise); and for \<open>a \<noteq> b\<close> the ids of \<open>(a, b)\<close> and \<open>(b, a)\<close> differ, both
  are registered after ensuring \<open>p\<close> and \<open>q\<close>, and an empty surface holds exactly these two
  registrations.
\<close>

theorem gradient_cache:
  assumes "isHexColor a" "isHexColor b"
    and "color p = a" "endColor p = b" "color q = b" "endColor q = a"
  shows "createGradient (createGradient svg p) p = createGradient svg p
    \<and> length (filter (\<lambda>g. id' g = gradientId a b) (createGradient (createGradient svg p) p))
        = max 1 (length (filter (\<lambda>g. id' g = gradientId a b) svg))
    \<and> (a \<noteq> b \<longrightarrow>
          gradientId a b \<noteq> gradientId b a
        \<and> \<not> selectEmpty (createGradient (createGradient svg p) q) (gradientId a b)
        \<and> \<not> selectEmpty (createGradient (createGradient svg p) q) (gradientId b a)
        \<and> map id' (createGradients [] [p, q]) = [gradientId a b, gradientId b a])"
proof -
  have again: "createGradient (createGradient svg p) p = createGradient svg p"
    by (rule createGradient_again) simp_all
  have count: "length (filter (\<lambda>g. id' g = gradientId a b) (createGradient (createGradient svg p) p))
        = max 1 (length (filter (\<lambda>g. id' g = gradientId a b) svg))"
    using createGradient_count[of p svg] by (simp add: again assms)
  have two: "gradientId a b \<noteq> gradientId b a
        \<and> \<not> selectEmpty (createGradient (createGradient svg p) q) (gradientId a b)
        \<and> \<not> selectEmpty (createGradient (createGradient svg p) q) (gradientId b a)
        \<and> map id' (createGradients [] [p, q]) = [gradientId a b, gradientId b a]" if "a \<noteq> b"
  proof -
    have ne: "gradientId a b \<noteq> gradientId b a"
      using assms(1,2) that by (rule gradientId_swap)
    have p_in: "\<not> selectEmpty (createGradient svg p) (gradientId a b)"
      using createGradient_registered[of svg p] by (simp add: assms)
    then have 1: "\<not> selectEmpty (createGradient (createGradient svg p) q) (gradientId a b)"
      by (auto simp: createGradient_def[of "createGradient svg p" q] Let_def selectEmpty_iff)
    have 2: "\<not> selectEmpty (createGradient (createGradient svg p) q) (gradientId b a)"
      using createGradient_registered[of "createGradient svg p" q] by (simp add: assms)
    have 3: "map id' (createGradients [] [p, q]) = [gradientId a b, gradientId b a]"
      using ne by (simp add: createGradients_def createGradient_def Let_def selectEmpty_def assms)
    from ne 1 2 3 show ?thesis by simp
  qed
  from again count two show ?thesis by simp
qed

theorem gradient_cache_witness:
  "isHexColor ''#ff0000'' \<and> isHexColor ''#990000''
   \<and> createGradient (createGradient [] (examplePoint ''#ff0000'' ''#990000'' 0))
        (examplePoint ''#ff0000'' ''#990000'' 0)
      = createGradient [] (examplePoint ''#ff0000'' ''#990000'' 0)
   \<and> map id' (createGradient [] (examplePoint ''#ff0000'' ''#990000'' 0)) = [''gradient_ff0000_990000'']
   \<and> map id' (createGradients []
        [examplePoint ''#ff0000'' ''#990000'' 0, examplePoint ''#990000'' ''#ff0000'' 1])
      = [''gradient_ff0000_990000'', ''gradient_990000_ff0000'']"
proof -
  have h: "isHexColor ''#ff0000''" "isHexColor ''#990000''"
    by (simp_all add: isHexColor_def isHexDigit_def)
  have c: "color (examplePoint ''#ff0000'' ''#990000'' 0) = ''#ff0000''"
    "endColor (examplePoint ''#ff0000'' ''#990000'' 0) = ''#990000''"
    "color (examplePoint ''#990000'' ''#ff0000'' 1) = ''#990000''"
    "endColor (examplePoint ''#990000'' ''#ff0000'' 1) = ''#ff0000''"
    by (simp_all add: examplePoint_def)
  have i: "gradientId ''#ff0000'' ''#990000'' = ''gradient_ff0000_990000''"
    "gradientId ''#990000'' ''#ff0000'' = ''gradient_990000_ff0000''"
    by (simp_all add: gradientId_def substr_def)
  have one: "map id' (createGradient [] (examplePoint ''#ff0000'' ''#990000'' 0)) = [''gradient_ff0000_990000'']"
    by (simp add: createGradient_def selectEmpty_def c i)
  from gradient_cache[OF h c, of "[]"] show ?thesis
    using h one by (simp add: i)
qed

subsection \<open>Selection synchronisation\<close>

text \<open>
  What \<open>syncSelectionState\<close> writes. It keeps the points and their order; for an empty
  id list it removes the fill-opacity and the stroke-opacity of every point; otherwise
  every point whose selection id is included by some member of the list gets both
  opacities exactly 1, and every other point gets both exactly 0.4.
\<close>

lemma syncSelectionState_opacity:
  "\<exists>bars'. syncSelectionState includes (Some P) (Some S) = Some bars'
     \<and> length bars' = length P
     \<and> (\<forall>i<length P. datum (bars' ! i) = datum (P ! i)
          \<and> (if S = [] then fillOpacity (bars' ! i) = None \<and> strokeOpacity (bars' ! i) = None
              else if \<exists>s\<in>set S. includes s (selectionId (datum (P ! i)))
                then fillOpacity (bars' ! i) = Some 1 \<and> strokeOpacity (bars' ! i) = Some 1
                else fillOpacity (bars' ! i) = Some 0.4 \<and> strokeOpacity (bars' ! i) = Some 0.4))"
  by (simp add: syncSelectionState_def isSelectionIdInArray_def list_ex_iff solidOpacity_def
      transparentOpacity_def Let_def)

lemma syncSelectionState_opacity_example:
  "syncSelectionState (=) (Some [exampleBar 7, exampleBar 8]) (Some [7])
     = Some [exampleBar 7\<lparr>fillOpacity := Some 1, strokeOpacity := Some 1\<rparr>,
             exampleBar 8\<lparr>fillOpacity := Some 0.4, strokeOpacity := Some 0.4\<rparr>]
   \<and> syncSelectionState (=) (Some [exampleBar 7, exampleBar 8]) (Some [])
     = Some [exampleBar 7\<lparr>fillOpacity := None, strokeOpacity := None\<rparr>,
             exampleBar 8\<lparr>fillOpacity := None, strokeOpacity := None\<rparr>]"
  using syncSelectionState_opacity[of "(=)" "[exampleBar 7, exampleBar 8]" "[7]"]
  by (simp add: syncSelectionState_def isSelectionIdInArray_def solidOpacity_def
      transparentOpacity_def exampleBar_def examplePoint_def Let_def)

text \<open>
  C4. The claim is that with an empty selected-id set every point's fill-opacity and
  stroke-opacity overrides are cleared and the point falls back to the resting opacity
  (and that with a non-empty set the points get 1 and 0.4, which the function does).
  The resting opacity is not kept anywhere else: \<open>update\<close> writes it to the same two style
  properties, and \<open>syncSelectionState\<close> removes them. For every opacity setting and
  every set of bars, after \<open>update\<close> with no id selected both properties of every bar
  are unset; with the setting 50 the bars were styled with 0.5 and end with no opacity
  at all.
\<close>

theorem updateOpacity_resting_lost:
  "updateOpacity includes generalView' barSelection (Some [])
     = Some (map (\<lambda>bar. bar\<lparr>fillOpacity := None, strokeOpacity := None\<rparr>) barSelection)
   \<and> styleBars (opacity \<lparr>opacity = 50, showHelpLink = False, helpLinkColor = None\<rparr> / 100)
        [exampleBar 7, exampleBar 8]
     = [exampleBar 7\<lparr>fillOpacity := Some 0.5, strokeOpacity := Some 0.5\<rparr>,
        exampleBar 8\<lparr>fillOpacity := Some 0.5, strokeOpacity := Some 0.5\<rparr>]
   \<and> updateOpacity (=) \<lparr>opacity = 50, showHelpLink = False, helpLinkColor = None\<rparr>
        [exampleBar 7, exampleBar 8] (Some [])
     = Some [exampleBar 7\<lparr>fillOpacity := None, strokeOpacity := None\<rparr>,
             exampleBar 8\<lparr>fillOpacity := None, strokeOpacity := None\<rparr>]"
  by (simp add: updateOpacity_def styleBars_def syncSelectionState_def exampleBar_def
      examplePoint_def Let_def comp_def)

end
